theory Spec2Isabelle
  imports Complex_Main "HOL-Library.Sublist" "HOL-Library.Word"
begin

section \<open>Python values used by \<^verbatim>\<open>main.py\<close>\<close>

text \<open>
  A Python \<^verbatim>\<open>str\<close> is a sequence of code points. It is modelled as a \<^typ>\<open>string\<close>
  whose characters are read as the code points 0 to 255 (Latin-1), so that
  \<^verbatim>\<open>len\<close> is \<^const>\<open>length\<close> and the accented letter of the Spanish messages
  (code point 250) is the single character \<^term>\<open>CHR 0xFA\<close>.
\<close>

abbreviation NL :: string where
  "NL \<equiv> [CHR 0x0A]"

text \<open>\<^verbatim>\<open>str.lower()\<close> on the code points 0 to 255: the ASCII capitals and the
  Latin-1 capitals 192 to 222, the multiplication sign 215 apart, move up by 32.\<close>

definition lower_char :: "char \<Rightarrow> char" where
  "lower_char c =
     (let n = (of_char c :: nat) in
      if (65 \<le> n \<and> n \<le> 90) \<or> (192 \<le> n \<and> n \<le> 222 \<and> n \<noteq> 215)
      then char_of (n + 32) else c)"

definition lower :: "string \<Rightarrow> string" where
  "lower s = map lower_char s"

text \<open>The decimal rendering of a non-negative integer, as \<^verbatim>\<open>f"{i}"\<close> gives it.\<close>

definition digit_char :: "nat \<Rightarrow> char" where
  "digit_char d = char_of (48 + d)"

fun str_of_nat :: "nat \<Rightarrow> string" where
  "str_of_nat n =
     (if n < 10 then [digit_char n] else str_of_nat (n div 10) @ [digit_char (n mod 10)])"

declare str_of_nat.simps [simp del]

text \<open>\<^verbatim>\<open>sep.join(out)\<close>.\<close>

fun join :: "string \<Rightarrow> string list \<Rightarrow> string" where
  "join sep [] = []"
| "join sep [x] = x"
| "join sep (x # y # ys) = x @ sep @ join sep (y # ys)"

text \<open>
  What \<^verbatim>\<open>r.json()\<close> can return. A dictionary is an association list with distinct
  keys, looked up with \<^const>\<open>map_of\<close>.
\<close>

datatype json =
    JNull
  | JBool bool
  | JInt int
  | JFloat real
  | JStr string
  | JList "json list"
  | JObj "(string \<times> json) list"

text \<open>The exceptions that the modelled code can meet.\<close>

datatype exn =
    AttributeError
  | TypeError
  | KeyError string
  | WebSocketDisconnect
  | RuntimeError string

text \<open>Truth value of a Python object, as \<^verbatim>\<open>if not items\<close> tests it.\<close>

fun truthy :: "json \<Rightarrow> bool" where
  "truthy JNull = False"
| "truthy (JBool b) = b"
| "truthy (JInt i) = (i \<noteq> 0)"
| "truthy (JFloat r) = (r \<noteq> 0)"
| "truthy (JStr s) = (s \<noteq> [])"
| "truthy (JList xs) = (xs \<noteq> [])"
| "truthy (JObj d) = (d \<noteq> [])"

text \<open>\<^verbatim>\<open>v.get(k, default)\<close>: only a dictionary has the method.\<close>

fun py_get :: "json \<Rightarrow> string \<Rightarrow> json \<Rightarrow> exn + json" where
  "py_get (JObj d) k dflt = Inr (case map_of d k of Some v \<Rightarrow> v | None \<Rightarrow> dflt)"
| "py_get _ k dflt = Inl AttributeError"

text \<open>Iteration, as \<^verbatim>\<open>enumerate(items, 1)\<close> starts it: a list gives its elements,
  a string its characters, a dictionary its keys; nothing else is iterable.\<close>

fun py_iter :: "json \<Rightarrow> exn + json list" where
  "py_iter (JList xs) = Inr xs"
| "py_iter (JStr s) = Inr (map (\<lambda>c. JStr [c]) s)"
| "py_iter (JObj d) = Inr (map (\<lambda>kv. JStr (fst kv)) d)"
| "py_iter _ = Inl TypeError"

text \<open>
  A replacement field of an f-string inserts a string as it is. For any other value it
  inserts Python's built-in \<^verbatim>\<open>str()\<close> of it, which is taken as the parameter
  \<open>py_str\<close>.
\<close>

fun format_value :: "(json \<Rightarrow> string) \<Rightarrow> json \<Rightarrow> string" where
  "format_value py_str (JStr s) = s"
| "format_value py_str v = py_str v"

section \<open>The search helper\<close>

text \<open>The two credentials read from the environment; \<^verbatim>\<open>os.getenv\<close> gives
  \<^verbatim>\<open>None\<close> for a variable that is not set.\<close>

record config =
  GOOGLE_API_KEY :: "string option"
  GOOGLE_CSE_ID :: "string option"

text \<open>Truth value of an optional string: \<^verbatim>\<open>None\<close> and the empty string are false.\<close>

fun set_str :: "string option \<Rightarrow> bool" where
  "set_str None = False"
| "set_str (Some s) = (s \<noteq> [])"

record search_params =
  key :: string
  cx :: string
  q :: string
  num :: int

text \<open>
  The outcome of the three statements inside the \<^verbatim>\<open>try\<close> block: \<^verbatim>\<open>client.get\<close>
  raises (timeout, DNS failure, connection reset), \<^verbatim>\<open>raise_for_status\<close> raises on a
  non-success status, \<^verbatim>\<open>r.json()\<close> raises on a body that is not JSON, or the decoded
  body is there. Each failure carries \<^verbatim>\<open>str(e)\<close>.
\<close>

datatype http_outcome =
    Transport_error string
  | Status_error string
  | Json_error string
  | Body json

type_synonym http_client = "search_params \<Rightarrow> http_outcome"

definition disabled_msg :: string where
  "disabled_msg =
     ''[B'' @ [CHR 0xFA] @ ''squeda deshabilitada: falta GOOGLE_API_KEY o GOOGLE_CSE_ID]''"

definition error_msg :: "string \<Rightarrow> string" where
  "error_msg e = ''[Error en b'' @ [CHR 0xFA] @ ''squeda: '' @ e @ '']''"

definition no_results_msg :: string where
  "no_results_msg = ''[Sin resultados en Google]''"

text \<open>The body of the \<^verbatim>\<open>for\<close> loop: one entry of \<^verbatim>\<open>out\<close>.\<close>

definition render_item :: "(json \<Rightarrow> string) \<Rightarrow> nat \<Rightarrow> json \<Rightarrow> exn + string" where
  "render_item py_str i it =
     (case py_get it ''title'' (JStr '''') of
        Inl e \<Rightarrow> Inl e
      | Inr title \<Rightarrow>
     (case py_get it ''snippet'' (JStr '''') of
        Inl e \<Rightarrow> Inl e
      | Inr snippet \<Rightarrow>
     (case py_get it ''link'' (JStr '''') of
        Inl e \<Rightarrow> Inl e
      | Inr link \<Rightarrow>
          Inr (str_of_nat i @ ''. '' @ format_value py_str title @ NL
               @ format_value py_str snippet @ NL
               @ format_value py_str link @ NL))))"

text \<open>\<^verbatim>\<open>for i, it in enumerate(items, 1): out.append(...)\<close>.\<close>

fun enumerate_loop ::
  "(json \<Rightarrow> string) \<Rightarrow> nat \<Rightarrow> json list \<Rightarrow> string list \<Rightarrow> exn + string list" where
  "enumerate_loop py_str i [] out = Inr out"
| "enumerate_loop py_str i (it # its) out =
     (case render_item py_str i it of
        Inl e \<Rightarrow> Inl e
      | Inr s \<Rightarrow> enumerate_loop py_str (Suc i) its (out @ [s]))"

text \<open>
  \<^verbatim>\<open>google_search\<close>. \<open>Inl\<close> is an exception that leaves the function, \<open>Inr\<close> the
  string it returns.
\<close>

definition google_search ::
  "config \<Rightarrow> (json \<Rightarrow> string) \<Rightarrow> http_client \<Rightarrow> string \<Rightarrow> int \<Rightarrow> exn + string" where
  "google_search cfg py_str client query max_results =
     (if \<not> (set_str (GOOGLE_API_KEY cfg) \<and> set_str (GOOGLE_CSE_ID cfg)) then Inr disabled_msg
      else
        (case client \<lparr>key = the (GOOGLE_API_KEY cfg), cx = the (GOOGLE_CSE_ID cfg),
                        q = query, num = max_results\<rparr> of
           Transport_error e \<Rightarrow> Inr (error_msg e)
         | Status_error e \<Rightarrow> Inr (error_msg e)
         | Json_error e \<Rightarrow> Inr (error_msg e)
         | Body data \<Rightarrow>
             (case py_get data ''items'' (JList []) of
                Inl e \<Rightarrow> Inl e
              | Inr items \<Rightarrow>
                  if \<not> truthy items then Inr no_results_msg
                  else
                    (case py_iter items of
                       Inl e \<Rightarrow> Inl e
                     | Inr its \<Rightarrow>
                         (case enumerate_loop py_str 1 its [] of
                            Inl e \<Rightarrow> Inl e
                          | Inr out \<Rightarrow> Inr (join NL out))))))"

section \<open>The connection manager\<close>

text \<open>A \<^verbatim>\<open>WebSocket\<close> object is known by its identity only.\<close>

type_synonym handle = nat

record ConnectionManager =
  active_connections :: "handle list"
  memories :: "string \<rightharpoonup> string list"

definition manager_init :: ConnectionManager where
  "manager_init = \<lparr>active_connections = [], memories = Map.empty\<rparr>"

text \<open>\<^verbatim>\<open>connect\<close>, once \<^verbatim>\<open>websocket.accept()\<close> has returned.\<close>

definition connect :: "handle \<Rightarrow> ConnectionManager \<Rightarrow> ConnectionManager" where
  "connect websocket m = m\<lparr>active_connections := active_connections m @ [websocket]\<rparr>"

text \<open>\<^verbatim>\<open>list.remove\<close> takes the first occurrence out, which is \<^const>\<open>remove1\<close>.\<close>

definition disconnect :: "handle \<Rightarrow> ConnectionManager \<Rightarrow> ConnectionManager" where
  "disconnect websocket m =
     (if websocket \<in> set (active_connections m)
      then m\<lparr>active_connections := remove1 websocket (active_connections m)\<rparr>
      else m)"

text \<open>\<^verbatim>\<open>manager.memories.setdefault(client_id, [])\<close>.\<close>

definition setdefault_memory :: "string \<Rightarrow> ConnectionManager \<Rightarrow> ConnectionManager" where
  "setdefault_memory client_id m =
     (case memories m client_id of
        Some t \<Rightarrow> m
      | None \<Rightarrow> m\<lparr>memories := (memories m)(client_id \<mapsto> [])\<rparr>)"

text \<open>\<^verbatim>\<open>manager.memories[client_id].append(line)\<close>: the subscript raises
  \<^verbatim>\<open>KeyError\<close> when the identifier has no entry.\<close>

definition append_memory :: "string \<Rightarrow> string \<Rightarrow> ConnectionManager \<Rightarrow> exn + ConnectionManager" where
  "append_memory client_id line m =
     (case memories m client_id of
        None \<Rightarrow> Inl (KeyError client_id)
      | Some t \<Rightarrow> Inr (m\<lparr>memories := (memories m)(client_id \<mapsto> t @ [line])\<rparr>))"

text \<open>\<^verbatim>\<open>manager.memories.pop(client_id, None)\<close>.\<close>

definition pop_memory :: "string \<Rightarrow> ConnectionManager \<Rightarrow> ConnectionManager" where
  "pop_memory client_id m = m\<lparr>memories := (memories m)(client_id := None)\<rparr>"

section \<open>The WebSocket endpoint\<close>

text \<open>
  What the peer and the network do during one turn of the \<^verbatim>\<open>while True\<close> loop:
  \<^verbatim>\<open>receive_text\<close> returns a frame, raises \<^verbatim>\<open>WebSocketDisconnect\<close>, or raises
  another exception whose \<^verbatim>\<open>str(e)\<close> is given; a frame comes with the behaviour of
  the search request made for it; \<^verbatim>\<open>send_text\<close> returns or raises.
\<close>

datatype send_outcome = Sent | Send_raises exn

datatype ws_event =
    Frame string http_client send_outcome
  | Peer_disconnect
  | Recv_fault string send_outcome

datatype ctl = Continue | Break

text \<open>
  The body of the loop, lines 99 to 125. It gives the manager as the body leaves it,
  how the body ends (an exception that leaves the inner \<^verbatim>\<open>try\<close> blocks,
  \<^verbatim>\<open>continue\<close> or falling through to the next turn, or \<^verbatim>\<open>break\<close>) and the
  texts delivered to the peer. One turn runs here with no other task in between; the
  manager it starts from is the one the two \<^verbatim>\<open>append\<close> calls meet.
\<close>

definition recv_error_text :: "string \<Rightarrow> string" where
  "recv_error_text e = ''Error al recibir mensaje: '' @ e"

definition build_response :: "string \<Rightarrow> string" where
  "build_response search_result = ''Resultados de Google:'' @ NL @ search_result"

definition user_line :: "string \<Rightarrow> string" where
  "user_line data = ''Usuario: '' @ data"

definition system_line :: "string \<Rightarrow> string" where
  "system_line response = ''ASISTEC: '' @ response"

definition loop_body ::
  "config \<Rightarrow> (json \<Rightarrow> string) \<Rightarrow> handle \<Rightarrow> string \<Rightarrow> ws_event \<Rightarrow> ConnectionManager
   \<Rightarrow> ConnectionManager \<times> (exn + ctl) \<times> string list" where
  "loop_body cfg py_str websocket client_id ev m =
     (case ev of
        Peer_disconnect \<Rightarrow> (m, Inl WebSocketDisconnect, [])
      | Recv_fault e snd_out \<Rightarrow>
          (case snd_out of
             Sent \<Rightarrow> (m, Inr Continue, [recv_error_text e])
           | Send_raises x \<Rightarrow> (m, Inl x, []))
      | Frame data client snd_out \<Rightarrow>
          (case google_search cfg py_str client data 3 of
             Inl x \<Rightarrow> (m, Inl x, [])
           | Inr search_result \<Rightarrow>
               (let response = build_response search_result in
                case append_memory client_id (user_line data) m of
                  Inl x \<Rightarrow> (m, Inl x, [])
                | Inr m1 \<Rightarrow>
                    (case append_memory client_id (system_line response) m1 of
                       Inl x \<Rightarrow> (m1, Inl x, [])
                     | Inr m2 \<Rightarrow>
                         (case snd_out of
                            Sent \<Rightarrow> (m2, Inr Continue, [response])
                          | Send_raises x \<Rightarrow> (disconnect websocket m2, Inr Break, []))))))"

datatype phase = Open | Closed

text \<open>
  One turn of the loop inside the outer \<^verbatim>\<open>try\<close>: both handlers, for
  \<^verbatim>\<open>WebSocketDisconnect\<close> (lines 127 to 130) and for any other exception (lines 131 to
  137), unregister the handle and pop the transcript; \<^verbatim>\<open>break\<close> leaves the loop with
  neither handler run.
\<close>

definition endpoint_turn ::
  "config \<Rightarrow> (json \<Rightarrow> string) \<Rightarrow> handle \<Rightarrow> string \<Rightarrow> ws_event \<Rightarrow> ConnectionManager
   \<Rightarrow> ConnectionManager \<times> phase \<times> string list" where
  "endpoint_turn cfg py_str websocket client_id ev m =
     (case loop_body cfg py_str websocket client_id ev m of
        (m', Inr Continue, out) \<Rightarrow> (m', Open, out)
      | (m', Inr Break, out) \<Rightarrow> (m', Closed, out)
      | (m', Inl WebSocketDisconnect, out) \<Rightarrow>
          (pop_memory client_id (disconnect websocket m'), Closed, out)
      | (m', Inl x, out) \<Rightarrow>
          (pop_memory client_id (disconnect websocket m'), Closed, out))"

text \<open>The loop over the turns the environment supplies; it is still \<^const>\<open>Open\<close>,
  waiting in \<^verbatim>\<open>receive_text\<close>, when they are used up.\<close>

fun endpoint_loop ::
  "config \<Rightarrow> (json \<Rightarrow> string) \<Rightarrow> handle \<Rightarrow> string \<Rightarrow> ws_event list \<Rightarrow> ConnectionManager
   \<Rightarrow> ConnectionManager \<times> phase \<times> string list" where
  "endpoint_loop cfg py_str websocket client_id [] m = (m, Open, [])"
| "endpoint_loop cfg py_str websocket client_id (ev # evs) m =
     (case endpoint_turn cfg py_str websocket client_id ev m of
        (m', Closed, out) \<Rightarrow> (m', Closed, out)
      | (m', Open, out) \<Rightarrow>
          (case endpoint_loop cfg py_str websocket client_id evs m' of
             (m'', ph, out') \<Rightarrow> (m'', ph, out @ out')))"

text \<open>Lines 94 to 96, after a successful handshake.\<close>

definition endpoint_open :: "handle \<Rightarrow> string \<Rightarrow> ConnectionManager \<Rightarrow> ConnectionManager" where
  "endpoint_open websocket client_id m = setdefault_memory client_id (connect websocket m)"

text \<open>\<^verbatim>\<open>websocket_endpoint\<close> for one connection whose handshake succeeds.\<close>

definition websocket_endpoint ::
  "config \<Rightarrow> (json \<Rightarrow> string) \<Rightarrow> handle \<Rightarrow> string \<Rightarrow> ws_event list \<Rightarrow> ConnectionManager
   \<Rightarrow> ConnectionManager \<times> phase \<times> string list" where
  "websocket_endpoint cfg py_str websocket client_id evs m =
     endpoint_loop cfg py_str websocket client_id evs (endpoint_open websocket client_id m)"

section \<open>The upload endpoint\<close>

text \<open>
  \<^verbatim>\<open>Path(file.filename).suffix\<close> on a POSIX system: the path is cut at every
  \<^verbatim>\<open>/\<close>, empty components and \<^verbatim>\<open>.\<close> components are dropped, the name is the last
  component left (empty when none is), and the suffix is the name from its last dot
  on, provided that dot is neither the first nor the last character of the name.
\<close>

fun split_on :: "char \<Rightarrow> string \<Rightarrow> string list" where
  "split_on c [] = [[]]"
| "split_on c (x # xs) =
     (if x = c then [] # split_on c xs
      else (case split_on c xs of w # ws \<Rightarrow> (x # w) # ws | [] \<Rightarrow> [[x]]))"

definition path_name :: "string \<Rightarrow> string" where
  "path_name p =
     (let parts = filter (\<lambda>x. x \<noteq> [] \<and> x \<noteq> ''.'') (split_on CHR ''/'' p)
      in if parts = [] then [] else last parts)"

text \<open>\<^verbatim>\<open>name.rfind('.')\<close>: the index of the last dot, or -1.\<close>

definition rfind :: "char \<Rightarrow> string \<Rightarrow> int" where
  "rfind c s =
     (if c \<in> set s then int (length s) - 1 - int (length (takeWhile (\<lambda>x. x \<noteq> c) (rev s)))
      else - 1)"

definition path_suffix :: "string \<Rightarrow> string" where
  "path_suffix p =
     (let name = path_name p; i = rfind CHR ''.'' name
      in if 0 < i \<and> i < int (length name) - 1 then drop (nat i) name else [])"

definition ALLOWED_EXT :: "string set" where
  "ALLOWED_EXT = {''.txt'', ''.pdf'', ''.docx'', ''.csv'', ''.xlsx'', ''.json'',
                  ''.png'', ''.jpg'', ''.jpeg'', ''.webp''}"

type_synonym bytes = "8 word list"

text \<open>The upload directory: the files in it, by path.\<close>

type_synonym storage = "string \<rightharpoonup> bytes"

datatype http_error = HTTPException nat string

record upload_response =
  file_url :: string
  filename :: string

text \<open>
  What can go wrong between \<^verbatim>\<open>aiofiles.open\<close> and the end of the \<^verbatim>\<open>async with\<close>
  block: opening fails (no file is created); the read numbered \<open>k\<close> (from 0) raises;
  the write numbered \<open>k\<close> raises after \<open>p\<close> bytes of its chunk have reached the file;
  closing the file raises, the flush of the buffered bytes having failed with only the
  first \<open>n\<close> bytes of the body in the file.
\<close>

datatype io_fault =
    No_fault
  | Open_fault
  | Read_fault nat
  | Write_fault nat nat
  | Close_fault nat

definition CHUNK :: nat where
  "CHUNK = 1024 * 1024"

text \<open>
  The \<^verbatim>\<open>while True\<close> loop of lines 149 to 153: \<open>k\<close> counts the turns, \<open>rest\<close> is
  what the upload has not yet handed out, \<open>written\<close> the content of the file. The
  result says whether the loop ended by \<^verbatim>\<open>break\<close> (and not by an exception) and gives
  the content of the file then.
\<close>

function save_loop :: "io_fault \<Rightarrow> nat \<Rightarrow> bytes \<Rightarrow> bytes \<Rightarrow> bool \<times> bytes" where
  "save_loop fault k rest written =
     (if fault = Read_fault k then (False, written)
      else
        (let chunk = take CHUNK rest in
         if chunk = [] then (True, written)
         else
           (case fault of
              Write_fault j p \<Rightarrow>
                if j = k then (False, written @ take p chunk)
                else save_loop fault (Suc k) (drop CHUNK rest) (written @ chunk)
            | _ \<Rightarrow> save_loop fault (Suc k) (drop CHUNK rest) (written @ chunk))))"
  by pat_completeness auto
termination
  by (relation "measure (\<lambda>(fault, k, rest, written). length rest)") (auto simp: CHUNK_def)

declare save_loop.simps [simp del]

text \<open>
  \<^verbatim>\<open>upload_file\<close>. \<open>token\<close> is \<^verbatim>\<open>uuid.uuid4().hex\<close>, 32 hexadecimal digits;
  \<open>content\<close> is the body of the uploaded file. The result is the exception raised or
  the dictionary returned, and the upload directory afterwards.
\<close>

definition upload_file ::
  "string \<Rightarrow> io_fault \<Rightarrow> string \<Rightarrow> bytes \<Rightarrow> storage \<Rightarrow> (http_error + upload_response) \<times> storage" where
  "upload_file token fault fname content disk =
     (let ext = lower (path_suffix fname) in
      if ext \<notin> ALLOWED_EXT then (Inl (HTTPException 400 ''File type not allowed''), disk)
      else
        (let uid_name = token @ ext;
             path = ''uploads/'' @ uid_name
         in if fault = Open_fault then (Inl (HTTPException 500 ''Error saving file''), disk)
            else
              (case save_loop fault 0 content [] of
                 (ok, written) \<Rightarrow>
                   (case fault of
                      Close_fault n \<Rightarrow>
                        (Inl (HTTPException 500 ''Error saving file''),
                         disk(path \<mapsto> take n written))
                    | _ \<Rightarrow>
                        if ok
                        then (Inr \<lparr>file_url = ''/uploads/'' @ uid_name, filename = fname\<rparr>,
                              disk(path \<mapsto> written))
                        else (Inl (HTTPException 500 ''Error saving file''),
                              disk(path \<mapsto> written))))))"

section \<open>Reading the search result, and the inputs of the examples\<close>

text \<open>
  The rendering of one result as the claims describe it: the index and a dot, then the
  title, the snippet and the link, each closed by a newline. A field that is missing is
  empty; a field that is not a string is shown by \<open>py_str\<close>.
\<close>

fun is_object :: "json \<Rightarrow> bool" where
  "is_object (JObj d) = True"
| "is_object _ = False"

definition field_text :: "(json \<Rightarrow> string) \<Rightarrow> json \<Rightarrow> string \<Rightarrow> string" where
  "field_text py_str it k =
     (case it of
        JObj d \<Rightarrow> (case map_of d k of Some (JStr s) \<Rightarrow> s | Some v \<Rightarrow> py_str v | None \<Rightarrow> [])
      | _ \<Rightarrow> [])"

definition entry :: "(json \<Rightarrow> string) \<Rightarrow> nat \<Rightarrow> json \<Rightarrow> string" where
  "entry py_str i it =
     str_of_nat i @ ''. '' @ field_text py_str it ''title'' @ NL
       @ field_text py_str it ''snippet'' @ NL
       @ field_text py_str it ''link'' @ NL"

definition disabled_cfg :: config where
  "disabled_cfg = \<lparr>GOOGLE_API_KEY = None, GOOGLE_CSE_ID = None\<rparr>"

definition enabled_cfg :: config where
  "enabled_cfg = \<lparr>GOOGLE_API_KEY = Some ''k'', GOOGLE_CSE_ID = Some ''cx''\<rparr>"

definition no_http :: http_client where
  "no_http = (\<lambda>p. Transport_error ''unreachable'')"

definition no_str :: "json \<Rightarrow> string" where
  "no_str = (\<lambda>v. [])"

definition two_results :: json where
  "two_results =
     JObj [(''items'',
            JList [JObj [(''title'', JStr ''T1''), (''link'', JStr ''L1'')],
                   JObj [(''title'', JStr ''T2''), (''snippet'', JStr ''S2''),
                         (''link'', JStr ''L2'')]])]"

text \<open>The manager after connection 1 has opened as \<^verbatim>\<open>alice\<close>, sent the frame
  \<^verbatim>\<open>hi\<close> and received its response.\<close>

definition alice_after_hi :: ConnectionManager where
  "alice_after_hi =
     fst (websocket_endpoint disabled_cfg no_str 1 ''alice'' [Frame ''hi'' no_http Sent]
            manager_init)"

text \<open>The manager after connections 1 and 2 have both opened as \<^verbatim>\<open>alice\<close> and
  the peer of connection 1 has disconnected.\<close>

definition shared_after_close :: ConnectionManager where
  "shared_after_close =
     fst (endpoint_turn disabled_cfg no_str 1 ''alice'' Peer_disconnect
            (endpoint_open 2 ''alice'' (endpoint_open 1 ''alice'' manager_init)))"

text \<open>A value that \<^verbatim>\<open>uuid.uuid4().hex\<close> can give.\<close>

definition sample_token :: string where
  "sample_token = ''0123456789ab4def8123456789abcdef''"

section \<open>The search helper: results\<close>

lemma google_search_disabled:
  "\<not> (set_str (GOOGLE_API_KEY cfg) \<and> set_str (GOOGLE_CSE_ID cfg)) \<Longrightarrow>
   google_search cfg py_str client query n = Inr disabled_msg"
  by (simp add: google_search_def)

lemma search_disabled_cfg: "google_search disabled_cfg py_str client query n = Inr disabled_msg"
  by (simp add: google_search_disabled disabled_cfg_def)

lemma format_value_field:
  "format_value py_str (case map_of d k of None \<Rightarrow> JStr [] | Some v \<Rightarrow> v)
   = field_text py_str (JObj d) k"
  by (cases "map_of d k") (auto simp add: field_text_def split: json.splits)

lemma render_item_object:
  "is_object it \<Longrightarrow> render_item py_str i it = Inr (entry py_str i it)"
  by (cases it) (simp_all add: render_item_def entry_def format_value_field)

text \<open>The loop appends to \<open>out\<close> one entry per result, numbered from \<open>i\<close> on.\<close>

lemma enumerate_loop_objects:
  "list_all is_object its \<Longrightarrow>
   enumerate_loop py_str i its out =
     Inr (out @ map (\<lambda>(j, it). entry py_str j it) (zip [i..<i + length its] its))"
proof (induction its arbitrary: i out)
  case Nil
  then show ?case by simp
next
  case (Cons it its)
  have "[i..<Suc (i + length its)] = i # [Suc i..<Suc (i + length its)]"
    by (rule upt_conv_Cons) simp
  with Cons show ?case
    by (simp add: render_item_object)
qed

lemma str_of_nat_one: "str_of_nat (Suc 0) = ''1''"
  by code_simp

lemma str_of_nat_two: "str_of_nat (Suc (Suc 0)) = ''2''"
  by code_simp

section \<open>The WebSocket endpoint: results\<close>

lemma endpoint_open_memories:
  "memories (endpoint_open ws cid m) =
     (memories m)(cid \<mapsto> (case memories m cid of None \<Rightarrow> [] | Some t \<Rightarrow> t))"
  by (auto simp add: endpoint_open_def setdefault_memory_def connect_def split: option.splits)

lemma endpoint_open_active:
  "active_connections (endpoint_open ws cid m) = active_connections m @ [ws]"
  by (simp add: endpoint_open_def setdefault_memory_def connect_def split: option.splits)

lemma disconnect_memories: "memories (disconnect ws m) = memories m"
  by (simp add: disconnect_def)

lemma disconnect_active:
  "active_connections (disconnect ws m) = remove1 ws (active_connections m)"
  by (simp add: disconnect_def remove1_idem)

lemma pop_memory_simps:
  "memories (pop_memory cid m) = (memories m)(cid := None)"
  "active_connections (pop_memory cid m) = active_connections m"
  by (simp_all add: pop_memory_def)

text \<open>A frame whose search returns, when the identifier has a transcript: both lines
  are appended before the response is sent.\<close>

lemma loop_body_frame:
  "google_search cfg py_str client data 3 = Inr sr \<Longrightarrow> memories m cid = Some t \<Longrightarrow>
   loop_body cfg py_str ws cid (Frame data client snd_out) m =
     (let m2 = m\<lparr>memories :=
                   (memories m)(cid \<mapsto> t @ [user_line data, system_line (build_response sr)])\<rparr>
      in case snd_out of
           Sent \<Rightarrow> (m2, Inr Continue, [build_response sr])
         | Send_raises x \<Rightarrow> (disconnect ws m2, Inr Break, []))"
  by (simp add: loop_body_def append_memory_def Let_def)

text \<open>The same frame when the identifier has no transcript: line 117 raises.\<close>

lemma loop_body_frame_absent:
  "google_search cfg py_str client data 3 = Inr sr \<Longrightarrow> memories m cid = None \<Longrightarrow>
   loop_body cfg py_str ws cid (Frame data client snd_out) m = (m, Inl (KeyError cid), [])"
  by (simp add: loop_body_def append_memory_def Let_def)

lemma endpoint_turn_frame:
  "google_search cfg py_str client data 3 = Inr sr \<Longrightarrow> memories m cid = Some t \<Longrightarrow>
   endpoint_turn cfg py_str ws cid (Frame data client snd_out) m =
     (let m2 = m\<lparr>memories :=
                   (memories m)(cid \<mapsto> t @ [user_line data, system_line (build_response sr)])\<rparr>
      in case snd_out of
           Sent \<Rightarrow> (m2, Open, [build_response sr])
         | Send_raises x \<Rightarrow> (disconnect ws m2, Closed, []))"
  by (simp add: endpoint_turn_def loop_body_frame Let_def split: send_outcome.splits)

lemma endpoint_turn_frame_absent:
  "google_search cfg py_str client data 3 = Inr sr \<Longrightarrow> memories m cid = None \<Longrightarrow>
   endpoint_turn cfg py_str ws cid (Frame data client snd_out) m =
     (pop_memory cid (disconnect ws m), Closed, [])"
  by (simp add: endpoint_turn_def loop_body_frame_absent)

lemma endpoint_turn_disconnect:
  "endpoint_turn cfg py_str ws cid Peer_disconnect m =
     (pop_memory cid (disconnect ws m), Closed, [])"
  by (simp add: endpoint_turn_def loop_body_def)

text \<open>A clean disconnect closes the session, takes the handle out of the active list
  and removes the transcript.\<close>

lemma endpoint_turn_peer_disconnect:
  "endpoint_turn cfg py_str ws cid Peer_disconnect m = (m', ph, out) \<Longrightarrow>
   ph = Closed \<and> active_connections m' = remove1 ws (active_connections m)
   \<and> memories m' cid = None"
  by (auto simp add: endpoint_turn_disconnect pop_memory_simps disconnect_active)

text \<open>A failed delivery closes the session and takes the handle out, and the
  transcript stays, with the two lines of the last exchange.\<close>

lemma endpoint_turn_delivery_failure:
  "google_search cfg py_str client data 3 = Inr sr \<Longrightarrow> memories m cid = Some t \<Longrightarrow>
   endpoint_turn cfg py_str ws cid (Frame data client (Send_raises x)) m = (m', ph, out) \<Longrightarrow>
   ph = Closed \<and> active_connections m' = remove1 ws (active_connections m)
   \<and> memories m' cid = Some (t @ [user_line data, system_line (build_response sr)])"
  by (auto simp add: endpoint_turn_frame Let_def disconnect_memories disconnect_active)

lemma open_alice: "memories (endpoint_open ws ''alice'' manager_init) ''alice'' = Some []"
  by (simp add: endpoint_open_memories manager_init_def)

lemma open_alice_active: "active_connections (endpoint_open ws ''alice'' manager_init) = [ws]"
  by (simp add: endpoint_open_active manager_init_def)

lemma alice_after_hi_memories:
  "memories alice_after_hi ''alice'' =
     Some [user_line ''hi'', system_line (build_response disabled_msg)]"
  by (simp add: alice_after_hi_def websocket_endpoint_def
      endpoint_turn_frame [OF search_disabled_cfg open_alice] Let_def)

lemma alice_after_hi_active: "1 \<in> set (active_connections alice_after_hi)"
  by (simp add: alice_after_hi_def websocket_endpoint_def
      endpoint_turn_frame [OF search_disabled_cfg open_alice] Let_def endpoint_open_active)

lemma shared_after_close_memories: "memories shared_after_close ''alice'' = None"
  by (simp add: shared_after_close_def endpoint_turn_disconnect pop_memory_simps)

lemma shared_after_close_active: "active_connections shared_after_close = [2]"
  by (simp add: shared_after_close_def endpoint_turn_disconnect pop_memory_simps
      disconnect_active endpoint_open_active manager_init_def)

section \<open>The upload endpoint: results\<close>

text \<open>Every allowed extension is in lower case already.\<close>

lemma lower_allowed: "a \<in> ALLOWED_EXT \<Longrightarrow> lower a = a"
  unfolding ALLOWED_EXT_def by (elim insertE emptyE; hypsubst; code_simp)

lemma CHUNK_pos: "0 < CHUNK"
  by (simp add: CHUNK_def)

lemma take_CHUNK_empty: "(take CHUNK rest = []) = (rest = [])"
  using CHUNK_pos by (cases rest) auto

lemma take_CHUNK_short: "length xs \<le> 3 \<Longrightarrow> take CHUNK xs = xs"
  by (simp add: CHUNK_def)

text \<open>With no fault the loop ends by \<^verbatim>\<open>break\<close> and has written the whole body.\<close>

lemma save_loop_no_fault: "save_loop No_fault k rest written = (True, written @ rest)"
proof (induction rest arbitrary: k written rule: length_induct)
  case (1 rest)
  show ?case
  proof (cases "rest = []")
    case True
    then show ?thesis
      by (subst save_loop.simps) simp
  next
    case False
    then have "length (drop CHUNK rest) < length rest"
      using CHUNK_pos by simp
    then have "save_loop No_fault (Suc k) (drop CHUNK rest) (written @ take CHUNK rest)
               = (True, (written @ take CHUNK rest) @ drop CHUNK rest)"
      using 1 by blast
    then show ?thesis
      using False by (subst save_loop.simps) (simp add: Let_def take_CHUNK_empty CHUNK_pos)
  qed
qed

text \<open>
  When write \<open>j\<close> fails, \<open>d\<close> turns ahead of turn \<open>k\<close>, and the body is long enough
  for that write to take place, the loop ends by the exception; the file holds the
  \<open>d\<close> chunks written before and the first \<open>p\<close> bytes of the failing chunk.
\<close>

lemma save_loop_write_fault:
  "j - k = d \<Longrightarrow> k \<le> j \<Longrightarrow> d * CHUNK < length rest \<Longrightarrow>
   save_loop (Write_fault j p) k rest written =
     (False, written @ take (d * CHUNK) rest @ take p (take CHUNK (drop (d * CHUNK) rest)))"
proof (induction d arbitrary: k rest written)
  case 0
  then have "k = j" and "rest \<noteq> []" by auto
  then show ?case
    by (subst save_loop.simps) (simp add: Let_def take_CHUNK_empty CHUNK_pos)
next
  case (Suc d)
  then have kj: "k \<noteq> j" "j - Suc k = d" "Suc k \<le> j" and ne: "rest \<noteq> []"
    by auto
  have len: "d * CHUNK < length (drop CHUNK rest)"
    using Suc.prems(3) by simp
  have step: "save_loop (Write_fault j p) (Suc k) (drop CHUNK rest) (written @ take CHUNK rest)
      = (False, (written @ take CHUNK rest) @ take (d * CHUNK) (drop CHUNK rest)
                @ take p (take CHUNK (drop (d * CHUNK) (drop CHUNK rest))))"
    by (rule Suc.IH [OF kj(2) kj(3) len])
  have t: "take CHUNK rest @ take (d * CHUNK) (drop CHUNK rest) = take (Suc d * CHUNK) rest"
    by (simp add: take_add)
  have dr: "drop (d * CHUNK) (drop CHUNK rest) = drop (Suc d * CHUNK) rest"
    by (simp add: add.commute)
  show ?case
    using kj(1) ne step t dr
    by (subst save_loop.simps) (simp add: Let_def take_CHUNK_empty CHUNK_pos del: mult_Suc)
qed

lemma upload_file_success:
  "lower (path_suffix fname) \<in> ALLOWED_EXT \<Longrightarrow>
   upload_file token No_fault fname content disk =
     (Inr \<lparr>file_url = ''/uploads/'' @ token @ lower (path_suffix fname), filename = fname\<rparr>,
      disk(''uploads/'' @ token @ lower (path_suffix fname) \<mapsto> content))"
  by (simp add: upload_file_def Let_def save_loop_no_fault)

lemma upload_file_write_fault:
  "lower (path_suffix fname) \<in> ALLOWED_EXT \<Longrightarrow> k * CHUNK < length content \<Longrightarrow>
   upload_file token (Write_fault k p) fname content disk =
     (Inl (HTTPException 500 ''Error saving file''),
      disk(''uploads/'' @ token @ lower (path_suffix fname) \<mapsto>
             take (k * CHUNK) content @ take p (take CHUNK (drop (k * CHUNK) content))))"
  using save_loop_write_fault [where j = k and k = 0 and d = k and rest = content
      and written = "[]" and p = p]
  by (simp add: upload_file_def Let_def)

lemma malware_suffix: "lower (path_suffix ''malware.exe'') = ''.exe''"
  by code_simp

lemma exe_not_allowed: "\<forall>a \<in> ALLOWED_EXT. ''.exe'' \<noteq> lower a"
  unfolding ALLOWED_EXT_def by code_simp

lemma report_suffix: "lower (path_suffix ''report.csv'') = ''.csv''"
  by code_simp

lemma REPORT_suffix: "path_suffix ''REPORT.CSV'' = ''.CSV''"
  by code_simp

lemma lower_CSV: "lower ''.CSV'' = ''.csv''"
  by code_simp

lemma token_name_suffix:
  "lower (path_suffix ''0123456789ab4def8123456789abcdef.csv'') = ''.csv''"
  by code_simp

lemma csv_allowed: "''.csv'' \<in> ALLOWED_EXT"
  by (simp add: ALLOWED_EXT_def)

section \<open>The claims\<close>

text \<open>
  C1. Whichever way a session closes, by the peer disconnecting cleanly or by the
  delivery of a response failing, the handle leaves the active set and the transcript
  stored under the identifier is removed. The code does so on a clean disconnect
  (\<open>endpoint_turn_peer_disconnect\<close>). On a failed delivery it only unregisters the
  handle: connection 1 opens as \<^verbatim>\<open>alice\<close>, sends \<^verbatim>\<open>hi\<close>, the delivery of the
  response fails; the session is closed, the active list is empty, and the transcript
  of \<^verbatim>\<open>alice\<close> is still there with its two lines.
\<close>

theorem delivery_failure_keeps_transcript:
  "(case websocket_endpoint disabled_cfg no_str 1 ''alice''
           [Frame ''hi'' no_http (Send_raises (RuntimeError ''closed''))] manager_init of
      (m', ph, out) \<Rightarrow>
        ph = Closed \<and> active_connections m' = []
        \<and> memories m' ''alice'' =
            Some [''Usuario: hi'',
                  ''ASISTEC: Resultados de Google:'' @ NL @ ''[B'' @ [CHR 0xFA]
                    @ ''squeda deshabilitada: falta GOOGLE_API_KEY o GOOGLE_CSE_ID]''])"
  by (simp add: websocket_endpoint_def
      endpoint_turn_frame [OF search_disabled_cfg open_alice] Let_def
      disconnect_memories disconnect_active open_alice_active
      user_line_def system_line_def build_response_def disabled_msg_def)

text \<open>
  C2, as amended. For every message whose search result is obtained and whose response
  is built, when the session's identifier has a transcript at that moment, exactly two
  lines are appended to it, in order: the user line with the received text, then the
  system line with the response. This holds whether or not the delivery that follows
  succeeds.
\<close>

theorem transcript_pair_appended:
  assumes "google_search cfg py_str client data 3 = Inr search_result"
    and "memories m client_id = Some t"
  shows "memories (fst (endpoint_turn cfg py_str websocket client_id
                          (Frame data client snd_out) m)) client_id
         = Some (t @ [''Usuario: '' @ data,
                      ''ASISTEC: '' @ ''Resultados de Google:'' @ NL @ search_result])"
  using assms
  by (cases snd_out)
     (simp_all add: endpoint_turn_frame Let_def disconnect_memories
        user_line_def system_line_def build_response_def)

theorem transcript_pair_appended_witness:
  "memories (fst (endpoint_turn disabled_cfg no_str 1 ''alice'' (Frame ''hi'' no_http Sent)
                    (endpoint_open 1 ''alice'' manager_init))) ''alice''
   = Some [''Usuario: hi'',
           ''ASISTEC: Resultados de Google:'' @ NL @ ''[B'' @ [CHR 0xFA]
             @ ''squeda deshabilitada: falta GOOGLE_API_KEY o GOOGLE_CSE_ID]'']"
  using transcript_pair_appended
     [OF search_disabled_cfg [where py_str = no_str and client = no_http and query = "''hi''"]
         open_alice [where ws = 1],
      where websocket = 1 and snd_out = Sent]
  by (simp add: disabled_msg_def)

text \<open>
  C2 as stated fails when the identifier has lost its transcript: connections 1 and 2
  are both open as \<^verbatim>\<open>alice\<close>, the peer of 1 disconnects, then 2 receives \<^verbatim>\<open>hi\<close>.
  The search result is obtained, connection 2 is still registered, and no line is
  appended: the first append raises and the session ends with no transcript.
\<close>

theorem transcript_pair_missing_entry_counterexample:
  "google_search disabled_cfg no_str no_http ''hi'' 3 = Inr disabled_msg
   \<and> 2 \<in> set (active_connections shared_after_close)
   \<and> loop_body disabled_cfg no_str 2 ''alice'' (Frame ''hi'' no_http Sent) shared_after_close
       = (shared_after_close, Inl (KeyError ''alice''), [])
   \<and> memories (fst (endpoint_turn disabled_cfg no_str 2 ''alice'' (Frame ''hi'' no_http Sent)
                       shared_after_close)) ''alice'' = None"
  by (simp add: search_disabled_cfg
      loop_body_frame_absent [OF search_disabled_cfg shared_after_close_memories]
      endpoint_turn_frame_absent [OF search_disabled_cfg shared_after_close_memories]
      pop_memory_simps shared_after_close_active)

text \<open>
  C3, as amended. When either credential is absent, the search returns the fixed
  disabled sentinel for every query and every result count. For any received frame,
  provided the session's identifier has a transcript when the frame is processed, the
  relay's response is exactly the header line followed by that sentinel: it is what the
  system line of the transcript records and the only text sent for the frame, reaching
  the peer when the send succeeds. When the identifier has no transcript, the frame gets
  no response: the first append raises, and nothing is sent.
\<close>

theorem search_disabled_without_credentials:
  assumes "GOOGLE_API_KEY cfg = None \<or> GOOGLE_CSE_ID cfg = None"
  shows "google_search cfg py_str client query max_results =
           Inr (''[B'' @ [CHR 0xFA]
                @ ''squeda deshabilitada: falta GOOGLE_API_KEY o GOOGLE_CSE_ID]'')
       \<and> (memories m client_id = Some t \<longrightarrow>
            (case loop_body cfg py_str websocket client_id (Frame data client snd_out) m of
               (m', r, out) \<Rightarrow>
                 memories m' client_id =
                   Some (t @ [''Usuario: '' @ data,
                              ''ASISTEC: '' @ ''Resultados de Google:'' @ NL @ ''[B'' @ [CHR 0xFA]
                                @ ''squeda deshabilitada: falta GOOGLE_API_KEY o GOOGLE_CSE_ID]''])
                 \<and> out = (if snd_out = Sent
                          then [''Resultados de Google:'' @ NL @ ''[B'' @ [CHR 0xFA]
                                @ ''squeda deshabilitada: falta GOOGLE_API_KEY o GOOGLE_CSE_ID]'']
                          else [])))
       \<and> (memories m client_id = None \<longrightarrow>
            loop_body cfg py_str websocket client_id (Frame data client snd_out) m
              = (m, Inl (KeyError client_id), []))"
proof -
  from assms have off: "\<not> (set_str (GOOGLE_API_KEY cfg) \<and> set_str (GOOGLE_CSE_ID cfg))"
    by auto
  have gs: "\<And>q n. google_search cfg py_str client q n = Inr disabled_msg"
    using off by (rule google_search_disabled)
  have absent: "memories m client_id = None \<Longrightarrow>
      loop_body cfg py_str websocket client_id (Frame data client snd_out) m
        = (m, Inl (KeyError client_id), [])"
    by (rule loop_body_frame_absent [OF gs])
  have present: "memories m client_id = Some t \<Longrightarrow>
      (case loop_body cfg py_str websocket client_id (Frame data client snd_out) m of
         (m', r, out) \<Rightarrow>
           memories m' client_id =
             Some (t @ [''Usuario: '' @ data,
                        ''ASISTEC: '' @ ''Resultados de Google:'' @ NL @ ''[B'' @ [CHR 0xFA]
                          @ ''squeda deshabilitada: falta GOOGLE_API_KEY o GOOGLE_CSE_ID]''])
           \<and> out = (if snd_out = Sent
                    then [''Resultados de Google:'' @ NL @ ''[B'' @ [CHR 0xFA]
                          @ ''squeda deshabilitada: falta GOOGLE_API_KEY o GOOGLE_CSE_ID]'']
                    else []))"
    using loop_body_frame [OF gs, where ws = websocket and snd_out = snd_out and m = m
        and cid = client_id and t = t]
    by (cases snd_out)
       (simp_all add: Let_def disconnect_memories disabled_msg_def build_response_def
          user_line_def system_line_def)
  have sentinel: "google_search cfg py_str client query max_results =
      Inr (''[B'' @ [CHR 0xFA]
           @ ''squeda deshabilitada: falta GOOGLE_API_KEY o GOOGLE_CSE_ID]'')"
    using gs by (simp add: disabled_msg_def)
  show ?thesis
    using sentinel absent present by blast
qed

theorem search_disabled_without_credentials_witness:
  "google_search \<lparr>GOOGLE_API_KEY = None, GOOGLE_CSE_ID = Some ''cx''\<rparr> no_str no_http
       ''weather today'' 3 =
           Inr (''[B'' @ [CHR 0xFA]
                @ ''squeda deshabilitada: falta GOOGLE_API_KEY o GOOGLE_CSE_ID]'')
   \<and> snd (snd (loop_body \<lparr>GOOGLE_API_KEY = None, GOOGLE_CSE_ID = Some ''cx''\<rparr> no_str 1 ''alice''
                 (Frame ''weather today'' no_http Sent) (endpoint_open 1 ''alice'' manager_init)))
       = [''Resultados de Google:'' @ NL @ ''[B'' @ [CHR 0xFA]
                           @ ''squeda deshabilitada: falta GOOGLE_API_KEY o GOOGLE_CSE_ID]'']
   \<and> memories (fst (loop_body \<lparr>GOOGLE_API_KEY = None, GOOGLE_CSE_ID = Some ''cx''\<rparr> no_str 1
                 ''alice'' (Frame ''weather today'' no_http Sent)
                 (endpoint_open 1 ''alice'' manager_init))) ''alice''
       = Some [''Usuario: weather today'',
               ''ASISTEC: Resultados de Google:'' @ NL @ ''[B'' @ [CHR 0xFA]
                           @ ''squeda deshabilitada: falta GOOGLE_API_KEY o GOOGLE_CSE_ID]'']"
  using search_disabled_without_credentials
     [where cfg = "\<lparr>GOOGLE_API_KEY = None, GOOGLE_CSE_ID = Some ''cx''\<rparr>" and py_str = no_str
      and client = no_http and query = "''weather today''" and max_results = 3
      and websocket = 1 and client_id = "''alice''" and data = "''weather today''"
      and snd_out = Sent and m = "endpoint_open 1 ''alice'' manager_init" and t = "[]"]
    open_alice [where ws = 1]
  by (simp split: prod.splits)

text \<open>
  C3 as stated fails for a frame received when the identifier has lost its transcript:
  with no credential set, connections 1 and 2 are both open as \<^verbatim>\<open>alice\<close>, the peer
  of 1 disconnects, then 2, still registered, receives \<^verbatim>\<open>weather today\<close>. Nothing
  is sent in response, and the session of connection 2 ends.
\<close>

theorem disabled_response_missing_counterexample:
  "GOOGLE_API_KEY disabled_cfg = None
   \<and> 2 \<in> set (active_connections shared_after_close)
   \<and> endpoint_turn disabled_cfg no_str 2 ''alice'' (Frame ''weather today'' no_http Sent)
        shared_after_close
       = (pop_memory ''alice'' (disconnect 2 shared_after_close), Closed, [])
   \<and> snd (snd (loop_body disabled_cfg no_str 2 ''alice'' (Frame ''weather today'' no_http Sent)
                  shared_after_close))
       \<noteq> [''Resultados de Google:'' @ NL @ ''[B'' @ [CHR 0xFA]
            @ ''squeda deshabilitada: falta GOOGLE_API_KEY o GOOGLE_CSE_ID]'']"
  by (simp add: disabled_cfg_def [symmetric]
      loop_body_frame_absent [OF search_disabled_cfg shared_after_close_memories]
      endpoint_turn_frame_absent [OF search_disabled_cfg shared_after_close_memories]
      shared_after_close_active)
     (simp add: disabled_cfg_def)

text \<open>
  C4. With both credentials set, when the outbound request ends in a transport failure
  or in a non-success status, the search returns (it does not raise) the error sentinel
  that embeds the detail of the failure.
\<close>

theorem search_failure_returns_sentinel:
  assumes "set_str (GOOGLE_API_KEY cfg)" and "set_str (GOOGLE_CSE_ID cfg)"
    and "client \<lparr>key = the (GOOGLE_API_KEY cfg), cx = the (GOOGLE_CSE_ID cfg),
                  q = query, num = max_results\<rparr> = r"
    and "r = Transport_error detail \<or> r = Status_error detail"
  shows "google_search cfg py_str client query max_results =
           Inr (''[Error en b'' @ [CHR 0xFA] @ ''squeda: '' @ detail @ '']'')"
  using assms by (auto simp add: google_search_def error_msg_def)

theorem search_failure_returns_sentinel_witness:
  "google_search enabled_cfg no_str (\<lambda>p. Status_error ''403 Forbidden'') ''weather'' 3 =
           Inr (''[Error en b'' @ [CHR 0xFA] @ ''squeda: '' @ ''403 Forbidden'' @ '']'')
   \<and> google_search enabled_cfg no_str (\<lambda>p. Transport_error ''timed out'') ''weather'' 3 =
           Inr (''[Error en b'' @ [CHR 0xFA] @ ''squeda: '' @ ''timed out'' @ '']'')"
  using search_failure_returns_sentinel
     [where cfg = enabled_cfg and client = "\<lambda>p. Status_error ''403 Forbidden''"
      and query = "''weather''" and max_results = 3 and r = "Status_error ''403 Forbidden''"
      and detail = "''403 Forbidden''" and py_str = no_str]
    search_failure_returns_sentinel
     [where cfg = enabled_cfg and client = "\<lambda>p. Transport_error ''timed out''"
      and query = "''weather''" and max_results = 3 and r = "Transport_error ''timed out''"
      and detail = "''timed out''" and py_str = no_str]
  by (simp add: enabled_cfg_def)

text \<open>
  C5. For a successful response whose result list holds objects: when the list is empty
  (or the body has no \<^verbatim>\<open>items\<close>) the search returns the fixed "no results" sentinel;
  otherwise it returns the entries in the order of the list, numbered from 1, entry
  \<open>i\<close> being the index, a dot and a space, then the title, the snippet and the link,
  each followed by a newline, the entries joined by newlines.
\<close>

theorem search_success_rendering:
  assumes "set_str (GOOGLE_API_KEY cfg)" and "set_str (GOOGLE_CSE_ID cfg)"
    and "client \<lparr>key = the (GOOGLE_API_KEY cfg), cx = the (GOOGLE_CSE_ID cfg),
                  q = query, num = max_results\<rparr> = Body data"
    and "py_get data ''items'' (JList []) = Inr (JList its)"
    and "list_all is_object its"
  shows "google_search cfg py_str client query max_results =
           Inr (if its = [] then ''[Sin resultados en Google]''
                else join NL (map (\<lambda>(i, it). entry py_str i it)
                                (zip [1..<Suc (length its)] its)))"
  using assms
  by (simp add: google_search_def no_results_msg_def enumerate_loop_objects)

theorem search_success_rendering_witness:
  "google_search enabled_cfg no_str (\<lambda>p. Body two_results) ''q'' 3 =
     Inr (''1. T1'' @ NL @ NL @ ''L1'' @ NL @ NL @ ''2. T2'' @ NL @ ''S2'' @ NL @ ''L2'' @ NL)
   \<and> google_search enabled_cfg no_str (\<lambda>p. Body (JObj [])) ''q'' 3 =
     Inr ''[Sin resultados en Google]''"
  using search_success_rendering
     [where cfg = enabled_cfg and client = "\<lambda>p. Body two_results" and data = two_results
      and query = "''q''" and max_results = 3 and py_str = no_str
      and its = "[JObj [(''title'', JStr ''T1''), (''link'', JStr ''L1'')],
                  JObj [(''title'', JStr ''T2''), (''snippet'', JStr ''S2''),
                        (''link'', JStr ''L2'')]]"]
    search_success_rendering
     [where cfg = enabled_cfg and client = "\<lambda>p. Body (JObj [])" and data = "JObj []"
      and query = "''q''" and max_results = 3 and py_str = no_str and its = "[]"]
  by (simp add: enabled_cfg_def two_results_def entry_def field_text_def upt_conv_Cons
      str_of_nat_one str_of_nat_two)

text \<open>
  C6, as amended. On a successful handshake the handle is added to the active set and
  the identifier has a transcript afterwards: the empty one when it had none before, the
  one it already had otherwise.
\<close>

theorem open_registers_and_keeps_transcript:
  "active_connections (endpoint_open websocket client_id m) = active_connections m @ [websocket]
   \<and> websocket \<in> set (active_connections (endpoint_open websocket client_id m))
   \<and> memories (endpoint_open websocket client_id m) client_id =
       Some (case memories m client_id of None \<Rightarrow> [] | Some t \<Rightarrow> t)
   \<and> (memories m client_id = None
        \<longrightarrow> memories (endpoint_open websocket client_id m) client_id = Some [])"
  by (simp add: endpoint_open_memories endpoint_open_active)

theorem open_registers_and_keeps_transcript_witness:
  "active_connections (endpoint_open 1 ''alice'' manager_init) = [1]
   \<and> memories (endpoint_open 1 ''alice'' manager_init) ''alice'' = Some []"
  using open_registers_and_keeps_transcript [where websocket = 1 and client_id = "''alice''"
      and m = manager_init]
  by (simp add: manager_init_def)

text \<open>
  C6 as stated fails when the identifier already has a transcript: connection 1 is open
  as \<^verbatim>\<open>alice\<close> and has exchanged one message; connection 2 then opens as
  \<^verbatim>\<open>alice\<close>, and right after its handshake the transcript is not empty.
\<close>

theorem open_transcript_not_empty_counterexample:
  "memories (endpoint_open 2 ''alice'' alice_after_hi) ''alice'' \<noteq> Some []"
  by (simp add: endpoint_open_memories alice_after_hi_memories)

text \<open>
  C7. For every uploaded filename whose extension, compared without regard to letter
  case, is none of the allowed ones, the upload fails with the client error 400 and the
  upload directory is left as it was, whatever the body and whatever the storage would
  have done; \<^verbatim>\<open>malware.exe\<close> is rejected this way.
\<close>

theorem upload_rejects_unlisted_extension:
  assumes "\<forall>a \<in> ALLOWED_EXT. lower (path_suffix fname) \<noteq> lower a"
  shows "upload_file token fault fname content disk =
           (Inl (HTTPException 400 ''File type not allowed''), disk)"
proof -
  have "lower (path_suffix fname) \<notin> ALLOWED_EXT"
    using assms lower_allowed by fastforce
  then show ?thesis
    by (simp add: upload_file_def Let_def)
qed

theorem upload_rejects_unlisted_extension_witness:
  "upload_file sample_token No_fault ''malware.exe'' [77, 90] Map.empty =
           (Inl (HTTPException 400 ''File type not allowed''), Map.empty)"
  using upload_rejects_unlisted_extension
     [where fname = "''malware.exe''" and token = sample_token
      and fault = No_fault and content = "[77, 90]" and disk = Map.empty]
    exe_not_allowed
  by (simp add: malware_suffix)

text \<open>
  C8, as amended. For every allowed upload that is stored without a fault, the returned
  \<^verbatim>\<open>file_url\<close> is \<^verbatim>\<open>/uploads/\<close> followed by the generated token and the
  extension of the original file in lower case, so it ends in that lower-cased
  extension; the generated name differs from the original name unless the original name
  begins with the very token generated for this upload; the returned \<^verbatim>\<open>filename\<close>
  is the original filename as received; and the body is stored under the generated name.
\<close>

theorem upload_success_response:
  assumes "lower (path_suffix fname) \<in> ALLOWED_EXT"
  shows "upload_file token No_fault fname content disk =
           (Inr \<lparr>file_url = ''/uploads/'' @ token @ lower (path_suffix fname),
                 filename = fname\<rparr>,
            disk(''uploads/'' @ token @ lower (path_suffix fname) \<mapsto> content))
       \<and> suffix (lower (path_suffix fname)) (''/uploads/'' @ token @ lower (path_suffix fname))
       \<and> (take (length token) fname \<noteq> token
            \<longrightarrow> token @ lower (path_suffix fname) \<noteq> fname)"
proof -
  have "take (length token) fname \<noteq> token \<Longrightarrow> token @ lower (path_suffix fname) \<noteq> fname"
  proof
    assume a: "take (length token) fname \<noteq> token"
      and e: "token @ lower (path_suffix fname) = fname"
    have "take (length token) (token @ lower (path_suffix fname)) = token"
      by simp
    with e a show False by simp
  qed
  moreover have "suffix (lower (path_suffix fname))
      (''/uploads/'' @ token @ lower (path_suffix fname))"
    by (intro suffix_appendI) simp
  ultimately show ?thesis
    using upload_file_success [OF assms] by simp
qed

theorem upload_success_response_witness:
  "upload_file sample_token No_fault ''report.csv'' [1, 2, 3] Map.empty =
     (Inr \<lparr>file_url = ''/uploads/0123456789ab4def8123456789abcdef.csv'',
           filename = ''report.csv''\<rparr>,
      [''uploads/0123456789ab4def8123456789abcdef.csv'' \<mapsto> [1, 2, 3]])
   \<and> suffix ''.csv'' ''/uploads/0123456789ab4def8123456789abcdef.csv''
   \<and> ''0123456789ab4def8123456789abcdef.csv'' \<noteq> ''report.csv''"
  using upload_success_response
     [where fname = "''report.csv''" and token = sample_token and content = "[1, 2, 3]"
      and disk = Map.empty]
  by (simp add: report_suffix csv_allowed sample_token_def)

text \<open>
  C8 as stated fails in two ways. For an extension written in capitals:
  \<^verbatim>\<open>REPORT.CSV\<close> is accepted, its extension is \<^verbatim>\<open>.CSV\<close>, and the returned
  \<^verbatim>\<open>file_url\<close> ends in \<^verbatim>\<open>.csv\<close>, not in the extension of the original file. And
  for an original name that is the generated token followed by its extension: the
  generated name is then the original name.
\<close>

theorem upload_url_extension_case_counterexample:
  "fst (upload_file sample_token No_fault ''REPORT.CSV'' [1, 2, 3] Map.empty) =
     Inr \<lparr>file_url = ''/uploads/0123456789ab4def8123456789abcdef.csv'',
          filename = ''REPORT.CSV''\<rparr>
   \<and> path_suffix ''REPORT.CSV'' = ''.CSV''
   \<and> \<not> suffix (path_suffix ''REPORT.CSV'') ''/uploads/0123456789ab4def8123456789abcdef.csv''
   \<and> fst (upload_file sample_token No_fault ''0123456789ab4def8123456789abcdef.csv'' [1, 2, 3]
            Map.empty) =
     Inr \<lparr>file_url = ''/uploads/'' @ ''0123456789ab4def8123456789abcdef.csv'',
          filename = ''0123456789ab4def8123456789abcdef.csv''\<rparr>"
  using upload_file_success [where fname = "''REPORT.CSV''" and token = sample_token
      and content = "[1, 2, 3]" and disk = Map.empty]
    upload_file_success [where fname = "''0123456789ab4def8123456789abcdef.csv''"
      and token = sample_token and content = "[1, 2, 3]" and disk = Map.empty]
  by (simp add: REPORT_suffix lower_CSV token_name_suffix csv_allowed sample_token_def
      suffix_to_prefix)

text \<open>
  C9, as amended. For every allowed upload on which a write to the file fails partway
  (write \<open>k\<close>, after \<open>p\<close> bytes of its chunk), the handler fails with the server error
  500 and returns no success response; the file at the generated storage path stays,
  holding the chunks written before the failure and the bytes of the failing chunk that
  reached it.
\<close>

theorem upload_write_failure:
  assumes "lower (path_suffix fname) \<in> ALLOWED_EXT"
    and "k * CHUNK < length content"
  shows "upload_file token (Write_fault k p) fname content disk =
           (Inl (HTTPException 500 ''Error saving file''),
            disk(''uploads/'' @ token @ lower (path_suffix fname) \<mapsto>
                   take (k * CHUNK) content @ take p (take CHUNK (drop (k * CHUNK) content))))"
  using assms by (rule upload_file_write_fault)

theorem upload_write_failure_witness:
  "upload_file sample_token (Write_fault 0 1) ''report.csv'' [80, 75, 3] Map.empty =
     (Inl (HTTPException 500 ''Error saving file''),
      [''uploads/0123456789ab4def8123456789abcdef.csv'' \<mapsto> [80]])"
  using upload_write_failure
     [where fname = "''report.csv''" and token = sample_token and content = "[80, 75, 3]"
      and disk = Map.empty and k = 0 and p = 1]
  by (simp add: report_suffix csv_allowed sample_token_def take_CHUNK_short)

text \<open>
  C9 as stated fails: \<^verbatim>\<open>report.csv\<close> with a body of three bytes, the first write
  failing after two of them. The handler answers with the error 500, and the file at
  the generated path is there with the two bytes.
\<close>

theorem upload_partial_file_counterexample:
  "fst (upload_file sample_token (Write_fault 0 2) ''report.csv'' [1, 2, 3] Map.empty)
     = Inl (HTTPException 500 ''Error saving file'')
   \<and> snd (upload_file sample_token (Write_fault 0 2) ''report.csv'' [1, 2, 3] Map.empty)
       (''uploads/'' @ sample_token @ ''.csv'') = Some [1, 2]"
  using upload_file_write_fault [where fname = "''report.csv''" and token = sample_token
      and content = "[1, 2, 3]" and disk = Map.empty and k = 0 and p = 2]
  by (simp add: report_suffix csv_allowed take_CHUNK_short)

text \<open>
  C10. Two connections open under one identifier share one transcript: the opening of
  the second keeps the entries that are there; the first clean disconnect, of either
  connection, removes the transcript while the other connection is still registered;
  and the next frame of the surviving connection finds no sequence under the
  identifier, its first append raising \<^verbatim>\<open>KeyError\<close> with nothing appended.
\<close>

theorem shared_transcript_lost_on_first_disconnect:
  assumes "memories m client_id = Some t"
    and "(closer = ws1 \<and> survivor = ws2) \<or> (closer = ws2 \<and> survivor = ws1)"
    and "ws1 \<in> set (active_connections m)" and "ws1 \<noteq> ws2"
    and "google_search cfg py_str client data 3 = Inr search_result"
    and "m2 = endpoint_open ws2 client_id m"
    and "m3 = fst (endpoint_turn cfg py_str closer client_id Peer_disconnect m2)"
  shows "memories m2 client_id = Some t
       \<and> memories m3 client_id = None
       \<and> survivor \<in> set (active_connections m3)
       \<and> loop_body cfg py_str survivor client_id (Frame data client snd_out) m3
           = (m3, Inl (KeyError client_id), [])"
proof -
  have kept: "memories m2 client_id = Some t"
    using assms(1,6) by (simp add: endpoint_open_memories)
  have gone: "memories m3 client_id = None"
    using assms(7) by (simp add: endpoint_turn_disconnect pop_memory_simps)
  have act: "active_connections m3 = remove1 closer (active_connections m @ [ws2])"
    using assms(6,7)
    by (simp add: endpoint_turn_disconnect pop_memory_simps disconnect_active
        endpoint_open_active)
  have "survivor \<in> set (active_connections m @ [ws2])" and "survivor \<noteq> closer"
    using assms(2,3,4) by auto
  then have alive: "survivor \<in> set (active_connections m3)"
    unfolding act by simp
  show ?thesis
    using kept gone alive loop_body_frame_absent [OF assms(5) gone] by simp
qed

theorem shared_transcript_lost_on_first_disconnect_witness:
  "memories (endpoint_open 2 ''alice'' alice_after_hi) ''alice'' = memories alice_after_hi ''alice''
   \<and> memories alice_after_hi ''alice'' \<noteq> Some [] \<and> memories alice_after_hi ''alice'' \<noteq> None
   \<and> memories (fst (endpoint_turn disabled_cfg no_str 1 ''alice'' Peer_disconnect
                      (endpoint_open 2 ''alice'' alice_after_hi))) ''alice'' = None
   \<and> 2 \<in> set (active_connections (fst (endpoint_turn disabled_cfg no_str 1 ''alice''
                      Peer_disconnect (endpoint_open 2 ''alice'' alice_after_hi))))
   \<and> snd (loop_body disabled_cfg no_str 2 ''alice'' (Frame ''bye'' no_http Sent)
        (fst (endpoint_turn disabled_cfg no_str 1 ''alice'' Peer_disconnect
                      (endpoint_open 2 ''alice'' alice_after_hi))))
       = (Inl (KeyError ''alice''), [])"
proof -
  have ne: "(1::nat) \<noteq> 2" by simp
  show ?thesis
    using shared_transcript_lost_on_first_disconnect
       [OF alice_after_hi_memories _ alice_after_hi_active ne
        search_disabled_cfg [where py_str = no_str and client = no_http and query = "''bye''"]
        refl refl,
        where closer = 1 and survivor = 2 and snd_out = Sent] alice_after_hi_memories
    by simp
qed

end
